theory Spec2Isabelle
  imports Main
begin

section \<open>Data model of the session controller (src/components/Agent.tsx)\<close>

text \<open>The enum \<open>CallStatus\<close> (lines 14-19).\<close>

datatype CallStatus = INACTIVE | CONNECTING | ACTIVE | FINISHED

text \<open>The union \<open>"user" | "system" | "assistant"\<close> of \<open>SavedMessage.role\<close>.\<close>

datatype Role = User | System | Assistant

text \<open>The interface \<open>SavedMessage\<close> (lines 21-24).\<close>

record SavedMessage =
  role :: Role
  content :: string

text \<open>
  A message of the voice agent's event stream. Its type declaration is not part of the
  sources; the handler reads the four fields \<open>type\<close>, \<open>transcriptType\<close>, \<open>role\<close> and
  \<open>transcript\<close> (lines 74-75), which are the fields of this record (prefixed, since
  \<open>role\<close> is a field of \<open>SavedMessage\<close> already).
\<close>

record Message =
  m_type :: string
  m_transcriptType :: string
  m_role :: Role
  m_transcript :: string

text \<open>
  The properties of the component that its logic reads (lines 26-35). Optional values
  (\<open>undefined\<close> in the source) are \<open>None\<close>.
\<close>

record AgentProps =
  userName :: string
  userId :: "string option"
  interviewId :: "string option"
  feedbackId :: "string option"
  type :: string
  questions :: "string list option"

text \<open>The component state: one field for each \<open>useState\<close> (lines 37-42).\<close>

record agent_state =
  callStatus :: CallStatus
  messages :: "SavedMessage list"
  isSpeaking :: bool
  lastMessage :: string
  credits :: "int option"
  isLoadingCredits :: bool

definition init_state :: agent_state where
  "init_state =
     \<lparr>callStatus = INACTIVE, messages = [], isSpeaking = False, lastMessage = [],
      credits = None, isLoadingCredits = True\<rparr>"

text \<open>
  Every call that leaves the component is an entry of the trace the handlers return, in
  the order the source issues it: the queries and updates of the external store, the
  calls of the voice agent, the feedback submission, navigation and the console.
\<close>

datatype effect =
    SelectCredits "string option"
  | UpdateCredits "string option" int
  | SelectExperience "string option"
  | UpdateExperience "string option" int
  | VapiStartWorkflow string "string option"
  | VapiStartInterviewer string
  | VapiStop
  | CreateFeedback "string option" "string option" "SavedMessage list" "string option"
  | RouterPush string
  | ConsoleLog string
  | ConsoleError string

text \<open>The updates of the external store, and the start of a voice call.\<close>

fun is_mutation :: "effect \<Rightarrow> bool" where
  "is_mutation (UpdateCredits u c) = True"
| "is_mutation (UpdateExperience u x) = True"
| "is_mutation e = False"



fun is_vapi_start :: "effect \<Rightarrow> bool" where
  "is_vapi_start (VapiStartWorkflow n u) = True"
| "is_vapi_start (VapiStartInterviewer q) = True"
| "is_vapi_start e = False"

fun is_createFeedback :: "effect \<Rightarrow> bool" where
  "is_createFeedback (CreateFeedback i u t f) = True"
| "is_createFeedback e = False"

section \<open>Answers of the external services\<close>

text \<open>
  The answer \<open>{ data, error }\<close> of the query of line 47: \<open>fc_error\<close> is the error
  (\<open>None\<close> when there is none), \<open>fc_credits\<close> is \<open>data.credits\<close>.
\<close>

record fetchCredits_response =
  fc_error :: "string option"
  fc_credits :: "int option"

text \<open>The row \<open>profileData\<close> of line 154, with its field \<open>experience\<close>.\<close>

record profile =
  experience :: "int option"

text \<open>
  The answers of the three awaited calls of \<open>handleCall\<close>, under the names the source
  destructures them to: \<open>error\<close> (line 148), \<open>profileData\<close> and \<open>fetchExpError\<close>
  (line 154), \<open>experror\<close> (line 167).
\<close>

record handleCall_responses =
  error :: "string option"
  profileData :: "profile option"
  fetchExpError :: "string option"
  experror :: "string option"

text \<open>The answer \<open>{ success, feedbackId }\<close> of \<open>createFeedback\<close> (line 119).\<close>

record createFeedback_result =
  success :: bool
  cf_feedbackId :: "string option"

text \<open>
  The promise that \<open>createFeedback\<close> returns is settled in one of two ways: it is
  resolved with an answer, or it is rejected (the call itself failed).
\<close>

datatype createFeedback_answer = Resolved createFeedback_result | Rejected

section \<open>The handlers\<close>

text \<open>JavaScript truthiness of an optional string: defined and not empty.\<close>

definition truthy :: "string option \<Rightarrow> bool" where
  "truthy x = (case x of None \<Rightarrow> False | Some v \<Rightarrow> v \<noteq> [])"

text \<open>A template literal prints \<open>undefined\<close> for a value that is not there.\<close>

definition interpolate :: "string option \<Rightarrow> string" where
  "interpolate x = (case x of None \<Rightarrow> ''undefined'' | Some v \<Rightarrow> v)"

text \<open>\<open>Array.prototype.join\<close>.\<close>

fun join :: "string \<Rightarrow> string list \<Rightarrow> string" where
  "join sep [] = []"
| "join sep [x] = x"
| "join sep (x # y # ys) = x @ sep @ join sep (y # ys)"

text \<open>
  JavaScript numbers are IEEE 754 doubles. The balance and the experience are integers
  (the spec's data model), so a number of the model is an integer, and the result of
  \<open>-\<close> and \<open>+\<close> is the exact result rounded to the nearest double, ties to the even
  significand of 53 bits. Up to a magnitude of \<open>2^53\<close> every integer is a double and
  nothing is rounded; above it the low bits are lost. The numbers that reach the
  component (the answers of the store) are doubles already. Overflow to \<open>Infinity\<close>, at
  magnitudes of \<open>2^1024\<close>, is not modelled.
\<close>

fun binary_digits :: "nat \<Rightarrow> nat" where
  "binary_digits n = (if n = 0 then 0 else Suc (binary_digits (n div 2)))"

declare binary_digits.simps [simp del]

definition to_double :: "int \<Rightarrow> int" where
  "to_double x =
     (let n = nat \<bar>x\<bar>;
          u = 2 ^ (binary_digits n - 53);
          q = n div u;
          r = n mod u;
          q' = (if 2 * r < u then q
                else if u < 2 * r then q + 1
                else if even q then q else q + 1)
      in sgn x * int (q' * u))"

definition js_minus :: "int \<Rightarrow> int \<Rightarrow> int" where
  "js_minus a b = to_double (a - b)"

definition js_plus :: "int \<Rightarrow> int \<Rightarrow> int" where
  "js_plus a b = to_double (a + b)"

text \<open>\<open>fetchCredits\<close> (lines 45-59), with the answer of its query.\<close>

definition fetchCredits ::
  "AgentProps \<Rightarrow> fetchCredits_response \<Rightarrow> agent_state \<Rightarrow> effect list \<times> agent_state" where
  "fetchCredits p r s =
     (if \<not> truthy (userId p) then ([], s)
      else if fc_error r \<noteq> None
        then ([SelectCredits (userId p), ConsoleError ''Failed to fetch credits''],
              s\<lparr>isLoadingCredits := False\<rparr>)
        else ([SelectCredits (userId p)],
              s\<lparr>credits := fc_credits r, isLoadingCredits := False\<rparr>))"

text \<open>The subscribers of the voice agent's events (lines 65-92).\<close>

definition onCallStart :: "agent_state \<Rightarrow> effect list \<times> agent_state" where
  "onCallStart s = ([], s\<lparr>callStatus := ACTIVE\<rparr>)"

definition onCallEnd :: "agent_state \<Rightarrow> effect list \<times> agent_state" where
  "onCallEnd s = ([], s\<lparr>callStatus := FINISHED\<rparr>)"

definition onMessage :: "Message \<Rightarrow> agent_state \<Rightarrow> effect list \<times> agent_state" where
  "onMessage message s =
     (if m_type message = ''transcript'' \<and> m_transcriptType message = ''final''
      then let newMessage = \<lparr>role = m_role message, content = m_transcript message\<rparr>
           in ([], s\<lparr>messages := messages s @ [newMessage]\<rparr>)
      else ([], s))"

definition onSpeechStart :: "agent_state \<Rightarrow> effect list \<times> agent_state" where
  "onSpeechStart s = ([ConsoleLog ''speech start''], s\<lparr>isSpeaking := True\<rparr>)"

definition onSpeechEnd :: "agent_state \<Rightarrow> effect list \<times> agent_state" where
  "onSpeechEnd s = ([ConsoleLog ''speech end''], s\<lparr>isSpeaking := False\<rparr>)"

definition onError :: "agent_state \<Rightarrow> effect list \<times> agent_state" where
  "onError s = ([ConsoleLog ''Error:''], s)"

text \<open>The route \<open>/dashboard/interview/${interviewId}/feedback\<close> (lines 127 and 139).\<close>

definition feedbackRoute :: "AgentProps \<Rightarrow> string" where
  "feedbackRoute p = ''/dashboard/interview/'' @ interpolate (interviewId p) @ ''/feedback''"

text \<open>
  \<open>handleGenerateFeedback\<close> (lines 116-132) is asynchronous: the part up to its
  \<open>await\<close> runs when it is called, the part after it when \<open>createFeedback\<close> has answered.
  The function has no \<open>try\<close>, and its caller (line 138) neither awaits it nor catches:
  when the promise of \<open>createFeedback\<close> is rejected, the \<open>await\<close> throws and the rest of
  the function does not run.
\<close>

definition handleGenerateFeedback_call :: "AgentProps \<Rightarrow> SavedMessage list \<Rightarrow> effect list" where
  "handleGenerateFeedback_call p msgs =
     [ConsoleLog ''handleGenerateFeedback'',
      CreateFeedback (interviewId p) (userId p) msgs (feedbackId p)]"

definition handleGenerateFeedback_resume :: "AgentProps \<Rightarrow> createFeedback_answer \<Rightarrow> effect list" where
  "handleGenerateFeedback_resume p a =
     (case a of
        Rejected \<Rightarrow> []
      | Resolved r \<Rightarrow>
          if success r \<and> truthy (cf_feedbackId r)
          then [RouterPush (feedbackRoute p)]
          else [ConsoleLog ''Error saving feedback'', RouterPush ''/dashboard''])"

text \<open>The body of the effect of lines 111-142.\<close>

definition feedbackEffect :: "AgentProps \<Rightarrow> agent_state \<Rightarrow> effect list \<times> agent_state" where
  "feedbackEffect p s =
     (let s' = (if messages s \<noteq> [] then s\<lparr>lastMessage := content (last (messages s))\<rparr> else s)
      in if callStatus s = FINISHED
         then (if type p = ''generate''
               then ([RouterPush ''/dashboard''], s')
               else (handleGenerateFeedback_call p (messages s) @ [RouterPush (feedbackRoute p)], s'))
         else ([], s'))"

text \<open>\<open>profileData?.experience ?? 0\<close> (line 165).\<close>

definition fetchedExperience :: "handleCall_responses \<Rightarrow> int" where
  "fetchedExperience r =
     (case profileData r of None \<Rightarrow> 0
      | Some d \<Rightarrow> (case experience d of None \<Rightarrow> 0 | Some x \<Rightarrow> x))"

text \<open>The call of \<open>vapi.start\<close> (lines 184-204).\<close>

definition vapiStart :: "AgentProps \<Rightarrow> effect" where
  "vapiStart p =
     (if type p = ''generate'' then VapiStartWorkflow (userName p) (userId p)
      else let formattedQuestions =
                 (case questions p of None \<Rightarrow> []
                  | Some qs \<Rightarrow> join [CHR 0x0A] (map (\<lambda>question. ''- '' @ question) qs))
           in VapiStartInterviewer formattedQuestions)"

text \<open>\<open>handleCall\<close> (lines 144-205), with the answers of its three awaited calls.\<close>

definition handleCall ::
  "AgentProps \<Rightarrow> handleCall_responses \<Rightarrow> agent_state \<Rightarrow> effect list \<times> agent_state" where
  "handleCall p r s =
     (case credits s of
        None \<Rightarrow> ([], s)
      | Some c \<Rightarrow>
          if c \<le> 0 then ([], s)
          else
            let e1 = [UpdateCredits (userId p) (js_minus c 1), SelectExperience (userId p)] in
            if fetchExpError r \<noteq> None
            then (e1 @ [ConsoleError ''Failed to fetch latest experience:''], s)
            else
              let newExperience = js_plus (fetchedExperience r) 20;
                  e2 = e1 @ [UpdateExperience (userId p) newExperience] in
              if experror r \<noteq> None
              then (e2 @ [ConsoleError ''Failed to update experience:''], s)
              else if error r \<noteq> None
              then (e2 @ [ConsoleError ''Failed to decrement credits:''], s)
              else (e2 @ [vapiStart p],
                    s\<lparr>credits := (case credits s of None \<Rightarrow> None | Some prev \<Rightarrow> Some (js_minus prev 1)),
                      callStatus := CONNECTING\<rparr>))"

text \<open>\<open>handleDisconnect\<close> (lines 207-210).\<close>

definition handleDisconnect :: "agent_state \<Rightarrow> effect list \<times> agent_state" where
  "handleDisconnect s = ([VapiStop], s\<lparr>callStatus := FINISHED\<rparr>)"

section \<open>The controller as a transition system\<close>

text \<open>
  What can happen to a mounted component: an answer to the query of the credits, an
  event of the voice agent, a click on one of the two buttons (the click on the call
  button together with the answers its handler will receive), and the answer to a
  feedback submission. A handler runs to its end in one step, the calls it awaits
  included: the steps of two handlers are not interleaved. Every handler can be called in
  every state, also where the page does not show its button, so the states reached here
  include all that the page can reach.
\<close>

datatype event =
    CreditsFetched fetchCredits_response
  | CallStart
  | CallEnd
  | MessageReceived Message
  | SpeechStart
  | SpeechEnd
  | ErrorReceived
  | ClickCall handleCall_responses
  | ClickDisconnect
  | FeedbackAnswered createFeedback_answer

fun handle :: "AgentProps \<Rightarrow> event \<Rightarrow> agent_state \<Rightarrow> effect list \<times> agent_state" where
  "handle p (CreditsFetched r) s = fetchCredits p r s"
| "handle p CallStart s = onCallStart s"
| "handle p CallEnd s = onCallEnd s"
| "handle p (MessageReceived m) s = onMessage m s"
| "handle p SpeechStart s = onSpeechStart s"
| "handle p SpeechEnd s = onSpeechEnd s"
| "handle p ErrorReceived s = onError s"
| "handle p (ClickCall r) s = handleCall p r s"
| "handle p ClickDisconnect s = handleDisconnect s"
| "handle p (FeedbackAnswered a) s = (handleGenerateFeedback_resume p a, s)"

text \<open>
  After a handler has changed the state, the effect of lines 111-142 runs again when one
  of its dependencies (line 142) has changed. The properties are fixed while the
  component is mounted, so these are \<open>messages\<close> (a new array after each append) and
  \<open>callStatus\<close>. On mount the effect runs once in the initial state, where it does
  nothing: the transcript is empty and the status is \<open>INACTIVE\<close>.
\<close>

definition step :: "AgentProps \<Rightarrow> event \<Rightarrow> agent_state \<Rightarrow> effect list \<times> agent_state" where
  "step p ev s =
     (let (es, s1) = handle p ev s in
      if messages s1 \<noteq> messages s \<or> callStatus s1 \<noteq> callStatus s
      then (let (es', s2) = feedbackEffect p s1 in (es @ es', s2))
      else (es, s1))"

fun run :: "AgentProps \<Rightarrow> event list \<Rightarrow> agent_state \<Rightarrow> effect list \<times> agent_state" where
  "run p [] s = ([], s)"
| "run p (ev # evs) s =
     (let (es, s1) = step p ev s; (es', s2) = run p evs s1 in (es @ es', s2))"

text \<open>The events that append a turn: the condition of line 74.\<close>

fun final_transcript :: "event \<Rightarrow> bool" where
  "final_transcript (MessageReceived m) =
     (m_type m = ''transcript'' \<and> m_transcriptType m = ''final'')"
| "final_transcript ev = False"

text \<open>The turns that a sequence of events adds to the transcript, in the order of arrival.\<close>

fun turns :: "event list \<Rightarrow> SavedMessage list" where
  "turns [] = []"
| "turns (MessageReceived m # evs) =
     (if m_type m = ''transcript'' \<and> m_transcriptType m = ''final''
      then \<lparr>role = m_role m, content = m_transcript m\<rparr> # turns evs
      else turns evs)"
| "turns (ev # evs) = turns evs"

section \<open>The feedback view (src/unnamed/part_000)\<close>

text \<open>
  What the page does: \<open>redirect\<close> leaves the function, so nothing is rendered after it;
  otherwise the page renders \<open>FeedbackClient\<close> with the identifier and the record.
\<close>

datatype 'i page_result = Redirect string | Render_FeedbackClient string 'i

text \<open>
  \<open>FeedbackPage\<close> (lines 7-17). \<open>getInterviewById\<close> is imported from a module that is not
  part of the sources, and is a parameter: the record stored under an identifier, if any.
\<close>

definition FeedbackPage :: "(string \<Rightarrow> 'i option) \<Rightarrow> string \<Rightarrow> 'i page_result" where
  "FeedbackPage getInterviewById ident =
     (case getInterviewById ident of
        None \<Rightarrow> Redirect ''/dashboard''
      | Some interview \<Rightarrow> Render_FeedbackClient ident interview)"

text \<open>What a visitor of the page gets to see.\<close>

datatype 'f view = Nothing_rendered | Feedback_shown "'f option"

text \<open>
  Modelled from the spec: the component \<open>FeedbackClient\<close>, imported from
  \<open>./FeedbackClient\<close>, is missing from the sources. The spec says of the feedback view
  that it "fetches a previously generated feedback record and renders it", that the record
  is "keyed by interview identifier", and that the view "renders the stored feedback to
  the client". So the component shows the feedback that is stored under the interview
  identifier it is given; \<open>storedFeedback\<close> is that store.
\<close>

definition FeedbackClient :: "(string \<Rightarrow> 'f option) \<Rightarrow> string \<Rightarrow> 'i \<Rightarrow> 'f view" where
  "FeedbackClient storedFeedback ident interview = Feedback_shown (storedFeedback ident)"

text \<open>The view that a result of the page stands for: none after a redirect.\<close>

fun rendered :: "(string \<Rightarrow> 'f option) \<Rightarrow> 'i page_result \<Rightarrow> 'f view" where
  "rendered storedFeedback (Redirect route) = Nothing_rendered"
| "rendered storedFeedback (Render_FeedbackClient ident interview) =
     FeedbackClient storedFeedback ident interview"

section \<open>Concrete inputs\<close>

text \<open>An interview session, a practice session, and answers of the external services.\<close>

definition interview_props :: AgentProps where
  "interview_props =
     \<lparr>userName = ''Ada'', userId = Some ''u1'', interviewId = Some ''i7'', feedbackId = None,
      type = ''technical'', questions = Some [''Why?'', ''How?'']\<rparr>"

definition generate_props :: AgentProps where
  "generate_props = interview_props\<lparr>type := ''generate''\<rparr>"

definition all_succeed :: handleCall_responses where
  "all_succeed =
     \<lparr>error = None, profileData = Some \<lparr>experience = Some 40\<rparr>, fetchExpError = None,
      experror = None\<rparr>"

definition experience_update_fails :: handleCall_responses where
  "experience_update_fails = all_succeed\<lparr>experror := Some ''timeout''\<rparr>"

definition three_credits :: fetchCredits_response where
  "three_credits = \<lparr>fc_error = None, fc_credits = Some 3\<rparr>"

definition final_turn :: Message where
  "final_turn =
     \<lparr>m_type = ''transcript'', m_transcriptType = ''final'', m_role = User,
      m_transcript = ''Hello''\<rparr>"

definition partial_turn :: Message where
  "partial_turn = final_turn\<lparr>m_transcriptType := ''partial''\<rparr>"

definition submission_failed :: createFeedback_result where
  "submission_failed = \<lparr>success = False, cf_feedbackId = None\<rparr>"

definition stored_feedback :: "string \<Rightarrow> string option" where
  "stored_feedback ident = (if ident = ''i7'' then Some ''feedback of i7'' else None)"

definition stored_interviews :: "string \<Rightarrow> string option" where
  "stored_interviews ident = (if ident = ''i7'' then Some ''a stored interview'' else None)"

section \<open>Properties of the handlers\<close>

lemmas handler_defs =
  fetchCredits_def onCallStart_def onCallEnd_def onMessage_def onSpeechStart_def
  onSpeechEnd_def onError_def handleDisconnect_def handleGenerateFeedback_resume_def

lemmas example_defs =
  interview_props_def generate_props_def all_succeed_def experience_update_fails_def
  three_credits_def final_turn_def partial_turn_def submission_failed_def init_state_def

text \<open>Integers of a magnitude up to \<open>2^53\<close> are doubles: nothing is rounded there.\<close>

lemma binary_digits_le: "n < 2 ^ k \<Longrightarrow> binary_digits n \<le> k"
proof (induction k arbitrary: n)
  case 0
  then show ?case by (simp add: binary_digits.simps)
next
  case (Suc k)
  then have "n div 2 < 2 ^ k" by simp
  then have "binary_digits (n div 2) \<le> k" by (rule Suc.IH)
  then show ?case by (subst binary_digits.simps) simp
qed

lemma binary_digits_ge: "2 ^ k \<le> n \<Longrightarrow> k < binary_digits n"
proof (induction k arbitrary: n)
  case 0
  then show ?case by (subst binary_digits.simps) simp
next
  case (Suc k)
  then have "2 ^ k \<le> n div 2" by simp
  then have "k < binary_digits (n div 2)" by (rule Suc.IH)
  moreover have "n \<noteq> 0"
  proof
    assume "n = 0"
    with Suc.prems show False by simp
  qed
  ultimately show ?case by (subst binary_digits.simps) simp
qed

lemma to_double_small:
  assumes "\<bar>x\<bar> < 2 ^ 53"
  shows "to_double x = x"
proof -
  from assms have "nat \<bar>x\<bar> < 2 ^ 53"
    by (simp add: nat_less_iff)
  then have "binary_digits (nat \<bar>x\<bar>) - 53 = 0"
    using binary_digits_le [of "nat \<bar>x\<bar>" 53] by simp
  then have "to_double x = sgn x * int (nat \<bar>x\<bar>)"
    by (simp add: to_double_def Let_def)
  also have "\<dots> = x"
    by (simp add: sgn_if)
  finally show ?thesis .
qed

lemma binary_digits_2_53: "binary_digits 9007199254740992 = 54"
  using binary_digits_ge [of 53 9007199254740992] binary_digits_le [of 9007199254740992 54]
  by simp


lemma to_double_safe:
  assumes "\<bar>x\<bar> \<le> 2 ^ 53"
  shows "to_double x = x"
proof (cases "\<bar>x\<bar> < 2 ^ 53")
  case True
  then show ?thesis by (rule to_double_small)
next
  case False
  with assms have "x = 9007199254740992 \<or> x = - 9007199254740992" by auto
  then show ?thesis
    by (auto simp: to_double_def Let_def binary_digits_2_53)
qed




lemma is_createFeedback_vapiStart: "is_createFeedback (vapiStart p) = False"
  by (simp add: vapiStart_def Let_def)

text \<open>A handler that leaves the state as it is does not make the effect run again.\<close>

lemma step_unchanged: "snd (handle p ev s) = s \<Longrightarrow> step p ev s = handle p ev s"
  by (cases "handle p ev s") (simp add: step_def)

text \<open>The effect writes \<open>lastMessage\<close> only.\<close>

lemma feedbackEffect_callStatus [simp]: "callStatus (snd (feedbackEffect p s)) = callStatus s"
  by (simp add: feedbackEffect_def Let_def)

lemma feedbackEffect_messages [simp]: "messages (snd (feedbackEffect p s)) = messages s"
  by (simp add: feedbackEffect_def Let_def)

lemma step_callStatus: "callStatus (snd (step p ev s)) = callStatus (snd (handle p ev s))"
  by (cases "handle p ev s")
     (simp add: step_def split: prod.splits, metis feedbackEffect_callStatus snd_conv)

lemma step_messages: "messages (snd (step p ev s)) = messages (snd (handle p ev s))"
  by (cases "handle p ev s")
     (simp add: step_def split: prod.splits, metis feedbackEffect_messages snd_conv)

lemma step_effects:
  "fst (step p ev s) = fst (handle p ev s) \<or>
   fst (step p ev s) = fst (handle p ev s) @ fst (feedbackEffect p (snd (handle p ev s)))"
  by (cases "handle p ev s") (simp add: step_def split: prod.splits)

lemma step_changed:
  "callStatus (snd (handle p ev s)) \<noteq> callStatus s \<Longrightarrow>
   fst (step p ev s) = fst (handle p ev s) @ fst (feedbackEffect p (snd (handle p ev s)))"
  by (cases "handle p ev s") (simp add: step_def split: prod.splits)

lemma step_to_FINISHED:
  assumes "callStatus s \<noteq> FINISHED" and "callStatus (snd (step p ev s)) = FINISHED"
  shows "fst (step p ev s) = fst (handle p ev s) @ fst (feedbackEffect p (snd (handle p ev s)))"
    and "callStatus (snd (handle p ev s)) = FINISHED"
    and "messages (snd (step p ev s)) = messages (snd (handle p ev s))"
  using assms by (simp_all add: step_callStatus step_messages step_changed)

text \<open>No handler submits feedback itself: only the effect does.\<close>

lemma handle_no_createFeedback: "filter is_createFeedback (fst (handle p ev s)) = []"
proof (cases ev)
  case (ClickCall r)
  then show ?thesis
    by (simp add: handleCall_def Let_def is_createFeedback_vapiStart split: option.splits)
qed (simp_all add: handler_defs Let_def split: createFeedback_answer.splits)

lemma feedbackEffect_generate:
  "type p = ''generate'' \<Longrightarrow> filter is_createFeedback (fst (feedbackEffect p s)) = []"
  by (simp add: feedbackEffect_def Let_def)

lemma feedbackEffect_FINISHED:
  "callStatus s = FINISHED \<Longrightarrow> type p \<noteq> ''generate'' \<Longrightarrow>
   fst (feedbackEffect p s) =
     [ConsoleLog ''handleGenerateFeedback'',
      CreateFeedback (interviewId p) (userId p) (messages s) (feedbackId p),
      RouterPush (feedbackRoute p)]"
  by (simp add: feedbackEffect_def Let_def handleGenerateFeedback_call_def)

lemma step_generate:
  assumes "type p = ''generate''"
  shows "filter is_createFeedback (fst (step p ev s)) = []"
  using step_effects [of p ev s] assms
  by (auto simp: handle_no_createFeedback feedbackEffect_generate)

lemma run_generate:
  "type p = ''generate'' \<Longrightarrow> filter is_createFeedback (fst (run p evs s)) = []"
  by (induction evs arbitrary: s) (simp_all add: split_beta Let_def step_generate)




text \<open>The transcript after a run is the transcript before it, followed by the new turns.\<close>

lemma turns_append: "turns (evs @ evs') = turns evs @ turns evs'"
  by (induction evs rule: turns.induct) simp_all

lemma turns_messages:
  "turns (map MessageReceived ms) =
     map (\<lambda>m. \<lparr>role = m_role m, content = m_transcript m\<rparr>)
       (filter (\<lambda>m. m_type m = ''transcript'' \<and> m_transcriptType m = ''final'') ms)"
  by (induction ms) simp_all

lemma run_messages: "messages (snd (run p evs s)) = messages s @ turns evs"
proof (induction evs arbitrary: s)
  case Nil
  then show ?case by simp
next
  case (Cons ev evs)
  have "messages (snd (step p ev s)) = messages s @ turns [ev]"
    by (cases ev)
       (simp_all add: step_messages handler_defs Let_def handleCall_def split: option.splits)
  moreover have "turns (ev # evs) = turns [ev] @ turns evs"
    by (cases ev) simp_all
  ultimately show ?case using Cons.IH [of "snd (step p ev s)"]
    by (simp add: split_beta Let_def)
qed

text \<open>The transcript changes exactly at a final transcript message, and the status not then.\<close>

lemma handle_messages_changed:
  "messages (snd (handle p ev s)) \<noteq> messages s \<longleftrightarrow> final_transcript ev"
  by (cases ev)
     (simp_all add: handler_defs Let_def handleCall_def split: option.splits)

lemma final_transcript_callStatus:
  "final_transcript ev \<Longrightarrow> callStatus (snd (handle p ev s)) = callStatus s"
  by (cases ev) (simp_all add: onMessage_def Let_def)

lemma feedbackEffect_createFeedback:
  "type p \<noteq> ''generate'' \<Longrightarrow>
   filter is_createFeedback (fst (feedbackEffect p s)) =
     (if callStatus s = FINISHED
      then [CreateFeedback (interviewId p) (userId p) (messages s) (feedbackId p)] else [])"
  by (simp add: feedbackEffect_def Let_def handleGenerateFeedback_call_def)

lemma step_createFeedback:
  "filter is_createFeedback (fst (step p ev s)) =
     (if messages (snd (handle p ev s)) \<noteq> messages s
          \<or> callStatus (snd (handle p ev s)) \<noteq> callStatus s
      then filter is_createFeedback (fst (feedbackEffect p (snd (handle p ev s)))) else [])"
  using handle_no_createFeedback [of p ev s]
  by (cases "handle p ev s") (simp add: step_def split: prod.splits)

text \<open>
  The effect runs whenever the transcript changes. A final transcript message that
  arrives while the status is \<open>FINISHED\<close> therefore makes it run again, and it submits
  the longer transcript.
\<close>

lemma turn_after_FINISHED:
  assumes "type p \<noteq> ''generate''" and "callStatus s = FINISHED"
    and "m_type m = ''transcript''" and "m_transcriptType m = ''final''"
  shows "fst (step p (MessageReceived m) s) =
     [ConsoleLog ''handleGenerateFeedback'',
      CreateFeedback (interviewId p) (userId p)
        (messages s @ [\<lparr>role = m_role m, content = m_transcript m\<rparr>]) (feedbackId p),
      RouterPush (feedbackRoute p)]"
  using assms
  by (simp add: step_def onMessage_def Let_def feedbackEffect_def handleGenerateFeedback_call_def)

section \<open>The claims\<close>

text \<open>
  Claim C1. When the credit balance is null or not positive, \<open>handleCall\<close> returns at once:
  it issues no call at all (so no credit update, no experience update and no start of a
  voice call) and leaves the state, and with it the call status, as it was; a status
  \<open>INACTIVE\<close> stays \<open>INACTIVE\<close>.
\<close>

theorem handleCall_rejected:
  assumes "credits s = None \<or> (\<exists>c. credits s = Some c \<and> c \<le> 0)"
  shows "handleCall p r s = ([], s)
       \<and> step p (ClickCall r) s = ([], s)
       \<and> filter is_mutation (fst (step p (ClickCall r) s)) = []
       \<and> filter is_vapi_start (fst (step p (ClickCall r) s)) = []
       \<and> (callStatus s = INACTIVE \<longrightarrow> callStatus (snd (step p (ClickCall r) s)) = INACTIVE)"
proof -
  from assms have h: "handleCall p r s = ([], s)"
    by (auto simp: handleCall_def)
  then have "step p (ClickCall r) s = ([], s)"
    using step_unchanged [of p "ClickCall r" s] by simp
  with h show ?thesis by simp
qed

theorem handleCall_rejected_witness:
  "(credits (init_state\<lparr>credits := Some 0\<rparr>) = None
      \<or> (\<exists>c. credits (init_state\<lparr>credits := Some 0\<rparr>) = Some c \<and> c \<le> 0))
   \<and> step interview_props (ClickCall all_succeed) (init_state\<lparr>credits := Some 0\<rparr>)
       = ([], init_state\<lparr>credits := Some 0\<rparr>)
   \<and> callStatus (snd (step interview_props (ClickCall all_succeed)
        (init_state\<lparr>credits := Some 0\<rparr>))) = INACTIVE"
proof -
  have h: "credits (init_state\<lparr>credits := Some 0\<rparr>) = None
      \<or> (\<exists>c. credits (init_state\<lparr>credits := Some 0\<rparr>) = Some c \<and> c \<le> 0)"
    by simp
  show ?thesis
    using h handleCall_rejected [where p = interview_props and r = all_succeed, OF h]
    by (simp add: init_state_def)
qed




text \<open>
  Claim C3. When the balance is positive and the update of the credits or the update of
  the experience fails, \<open>handleCall\<close> returns before it sets the status and before it
  starts the voice call: the state is as it was and no voice call is started. The updates
  it has issued stay as they are: the trace holds the decrement of the credits, the
  update of the experience unless the query of the experience failed, and no other
  update, so nothing is written back. The written values are the balance minus 1 and the
  fetched experience plus 20, as JavaScript computes them; up to a magnitude of \<open>2^53\<close>
  these are the exact values.
\<close>

theorem handleCall_update_failed:
  assumes "credits s = Some c" and "0 < c"
    and "error r \<noteq> None \<or> experror r \<noteq> None"
  shows "snd (handleCall p r s) = s
       \<and> snd (step p (ClickCall r) s) = s
       \<and> (callStatus s \<noteq> CONNECTING \<longrightarrow> callStatus (snd (step p (ClickCall r) s)) \<noteq> CONNECTING)
       \<and> filter is_vapi_start (fst (step p (ClickCall r) s)) = []
       \<and> filter is_mutation (fst (step p (ClickCall r) s)) =
           UpdateCredits (userId p) (js_minus c 1) #
           (if fetchExpError r = None
            then [UpdateExperience (userId p) (js_plus (fetchedExperience r) 20)] else [])
       \<and> (c \<le> 2 ^ 53 \<longrightarrow> js_minus c 1 = c - 1)
       \<and> (\<bar>fetchedExperience r + 20\<bar> \<le> 2 ^ 53 \<longrightarrow>
            js_plus (fetchedExperience r) 20 = fetchedExperience r + 20)"
proof -
  from assms have a: "snd (handleCall p r s) = s"
    by (auto simp: handleCall_def Let_def)
  then have b: "step p (ClickCall r) s = (fst (handleCall p r s), s)"
    using step_unchanged [of p "ClickCall r" s] by (simp add: prod_eq_iff)
  from assms have c: "filter is_vapi_start (fst (handleCall p r s)) = []"
    by (auto simp: handleCall_def Let_def)
  from assms have d: "filter is_mutation (fst (handleCall p r s)) =
           UpdateCredits (userId p) (js_minus c 1) #
           (if fetchExpError r = None
            then [UpdateExperience (userId p) (js_plus (fetchedExperience r) 20)] else [])"
    by (auto simp: handleCall_def Let_def)
  have e: "c \<le> 2 ^ 53 \<longrightarrow> js_minus c 1 = c - 1"
  proof
    assume "c \<le> 2 ^ 53"
    with assms(2) have "\<bar>c - 1\<bar> \<le> 2 ^ 53" by simp
    then show "js_minus c 1 = c - 1" by (simp add: js_minus_def to_double_safe)
  qed
  have f: "\<bar>fetchedExperience r + 20\<bar> \<le> 2 ^ 53 \<longrightarrow>
            js_plus (fetchedExperience r) 20 = fetchedExperience r + 20"
    by (simp add: js_plus_def to_double_safe)
  from a b c d e f show ?thesis by simp
qed

theorem handleCall_update_failed_witness:
  "credits (init_state\<lparr>credits := Some 3\<rparr>) = Some 3 \<and> (0::int) < 3
   \<and> experror experience_update_fails = Some ''timeout''
   \<and> snd (step interview_props (ClickCall experience_update_fails)
        (init_state\<lparr>credits := Some 3\<rparr>)) = init_state\<lparr>credits := Some 3\<rparr>
   \<and> filter is_mutation (fst (step interview_props (ClickCall experience_update_fails)
        (init_state\<lparr>credits := Some 3\<rparr>))) =
       [UpdateCredits (Some ''u1'') 2, UpdateExperience (Some ''u1'') 60]"
proof -
  have h: "credits (init_state\<lparr>credits := Some 3\<rparr>) = Some 3" "(0::int) < 3"
    "error experience_update_fails \<noteq> None \<or> experror experience_update_fails \<noteq> None"
    by (simp_all add: experience_update_fails_def)
  have k: "js_minus 3 1 = 2" "js_plus (fetchedExperience experience_update_fails) 20 = 60"
    by (simp_all add: js_minus_def js_plus_def to_double_safe fetchedExperience_def
        experience_update_fails_def all_succeed_def)
  show ?thesis
    using h k handleCall_update_failed [where p = interview_props, OF h]
    by (simp add: interview_props_def experience_update_fails_def all_succeed_def)
qed

text \<open>
  Claim C4, amended. In a session whose type is not \<open>generate\<close>, whatever the transcript
  is, every run of the effect with status \<open>FINISHED\<close> calls \<open>createFeedback\<close> exactly
  once, with the transcript of that moment. The effect runs in the step in which the
  status becomes \<open>FINISHED\<close>, so that step holds exactly one submission, never none; and
  it runs again for each final transcript message that arrives while the status is
  \<open>FINISHED\<close>, each time with one more submission. No other step submits.
\<close>

theorem feedback_submissions:
  assumes "type p \<noteq> ''generate''"
  shows "filter is_createFeedback (fst (step p ev s)) =
           (if callStatus (snd (step p ev s)) = FINISHED
               \<and> (callStatus s \<noteq> FINISHED \<or> final_transcript ev)
            then [CreateFeedback (interviewId p) (userId p) (messages (snd (step p ev s)))
                    (feedbackId p)]
            else [])
       \<and> (callStatus s = FINISHED \<longrightarrow>
            filter is_createFeedback (fst (feedbackEffect p s)) =
              [CreateFeedback (interviewId p) (userId p) (messages s) (feedbackId p)])"
proof
  let ?s1 = "snd (handle p ev s)"
  have st: "callStatus (snd (step p ev s)) = callStatus ?s1"
    and ms: "messages (snd (step p ev s)) = messages ?s1"
    by (simp_all add: step_callStatus step_messages)
  have ch: "messages ?s1 \<noteq> messages s \<longleftrightarrow> final_transcript ev"
    by (rule handle_messages_changed)
  show "filter is_createFeedback (fst (step p ev s)) =
           (if callStatus (snd (step p ev s)) = FINISHED
               \<and> (callStatus s \<noteq> FINISHED \<or> final_transcript ev)
            then [CreateFeedback (interviewId p) (userId p) (messages (snd (step p ev s)))
                    (feedbackId p)]
            else [])"
  proof (cases "callStatus ?s1 = FINISHED")
    case True
    then have "callStatus ?s1 \<noteq> callStatus s \<longleftrightarrow> callStatus s \<noteq> FINISHED"
      by auto
    with True assms ch show ?thesis
      by (auto simp: st ms step_createFeedback feedbackEffect_createFeedback)
  next
    case False
    with assms show ?thesis
      by (simp add: st step_createFeedback feedbackEffect_createFeedback)
  qed
next
  from assms show "callStatus s = FINISHED \<longrightarrow>
            filter is_createFeedback (fst (feedbackEffect p s)) =
              [CreateFeedback (interviewId p) (userId p) (messages s) (feedbackId p)]"
    by (simp add: feedbackEffect_createFeedback)
qed

theorem feedback_submissions_witness:
  "type interview_props \<noteq> ''generate''
   \<and> callStatus (snd (step interview_props CallEnd (init_state\<lparr>callStatus := ACTIVE\<rparr>))) = FINISHED
   \<and> callStatus (init_state\<lparr>callStatus := ACTIVE\<rparr>) \<noteq> FINISHED
   \<and> filter is_createFeedback
       (fst (step interview_props CallEnd (init_state\<lparr>callStatus := ACTIVE\<rparr>))) =
       [CreateFeedback (Some ''i7'') (Some ''u1'') [] None]
   \<and> filter is_createFeedback
       (fst (step interview_props SpeechStart (init_state\<lparr>callStatus := FINISHED\<rparr>))) = []"
proof -
  have h: "type interview_props \<noteq> ''generate''"
    by (simp add: interview_props_def)
  have k: "callStatus (snd (step interview_props CallEnd (init_state\<lparr>callStatus := ACTIVE\<rparr>)))
      = FINISHED"
    "callStatus (init_state\<lparr>callStatus := ACTIVE\<rparr>) \<noteq> FINISHED"
    by (simp_all add: step_callStatus onCallEnd_def)
  have m: "messages (snd (step interview_props CallEnd (init_state\<lparr>callStatus := ACTIVE\<rparr>))) = []"
    by (simp add: step_messages onCallEnd_def init_state_def)
  show ?thesis
    using h k m
      feedback_submissions [OF h, where s = "init_state\<lparr>callStatus := ACTIVE\<rparr>" and ev = CallEnd]
      feedback_submissions [OF h, where s = "init_state\<lparr>callStatus := FINISHED\<rparr>"
        and ev = SpeechStart]
    by (simp add: interview_props_def)
qed

text \<open>
  The claim as it stands, never more than one submission, fails in the session below: the
  status becomes \<open>FINISHED\<close> once, at the click on the disconnect button, a final
  transcript message arrives after it, and the transcript is submitted twice.
\<close>

theorem feedback_submissions_counterexample:
  "type interview_props \<noteq> ''generate''
   \<and> filter is_createFeedback
       (fst (run interview_props
          [CreditsFetched three_credits, ClickCall all_succeed, CallStart, ClickDisconnect,
           MessageReceived final_turn] init_state)) =
       [CreateFeedback (Some ''i7'') (Some ''u1'') [] None,
        CreateFeedback (Some ''i7'') (Some ''u1'') [\<lparr>role = User, content = ''Hello''\<rparr>] None]"
  by (simp add: step_def handler_defs handleCall_def Let_def truthy_def feedbackEffect_def
      handleGenerateFeedback_call_def is_createFeedback_vapiStart example_defs)

text \<open>
  Claim C5. In a session of type \<open>generate\<close>, no sequence of events from any state makes
  the controller call \<open>createFeedback\<close>. A run of the effect with status \<open>FINISHED\<close> only
  navigates to \<open>/dashboard\<close>, and so does the step in which the status becomes
  \<open>FINISHED\<close>, after what the handler itself has issued.
\<close>

theorem generate_never_submits:
  assumes "type p = ''generate''"
  shows "filter is_createFeedback (fst (run p evs s)) = []
       \<and> (callStatus s = FINISHED \<longrightarrow> fst (feedbackEffect p s) = [RouterPush ''/dashboard''])
       \<and> (callStatus s \<noteq> FINISHED \<and> callStatus (snd (step p ev s)) = FINISHED \<longrightarrow>
            fst (step p ev s) = fst (handle p ev s) @ [RouterPush ''/dashboard''])"
proof (intro conjI impI)
  from assms show "filter is_createFeedback (fst (run p evs s)) = []"
    by (rule run_generate)
next
  assume "callStatus s = FINISHED"
  with assms show "fst (feedbackEffect p s) = [RouterPush ''/dashboard'']"
    by (simp add: feedbackEffect_def Let_def)
next
  assume "callStatus s \<noteq> FINISHED \<and> callStatus (snd (step p ev s)) = FINISHED"
  then have "fst (step p ev s) = fst (handle p ev s) @ fst (feedbackEffect p (snd (handle p ev s)))"
    and "callStatus (snd (handle p ev s)) = FINISHED"
    by (simp_all add: step_to_FINISHED)
  with assms show "fst (step p ev s) = fst (handle p ev s) @ [RouterPush ''/dashboard'']"
    by (simp add: feedbackEffect_def Let_def)
qed

theorem generate_never_submits_witness:
  "type generate_props = ''generate''
   \<and> callStatus (init_state\<lparr>callStatus := ACTIVE\<rparr>) \<noteq> FINISHED
   \<and> callStatus (snd (step generate_props ClickDisconnect (init_state\<lparr>callStatus := ACTIVE\<rparr>)))
       = FINISHED
   \<and> fst (step generate_props ClickDisconnect (init_state\<lparr>callStatus := ACTIVE\<rparr>)) =
       [VapiStop, RouterPush ''/dashboard'']
   \<and> filter is_createFeedback
       (fst (run generate_props
          [CreditsFetched three_credits, ClickCall all_succeed, CallStart,
           MessageReceived final_turn, CallEnd] init_state)) = []"
proof -
  have h: "type generate_props = ''generate''"
    by (simp add: generate_props_def interview_props_def)
  have k: "callStatus (init_state\<lparr>callStatus := ACTIVE\<rparr>) \<noteq> FINISHED
    \<and> callStatus (snd (step generate_props ClickDisconnect (init_state\<lparr>callStatus := ACTIVE\<rparr>)))
        = FINISHED"
    by (simp add: step_callStatus handleDisconnect_def)
  show ?thesis
    using h k
      generate_never_submits [OF h, where s = "init_state\<lparr>callStatus := ACTIVE\<rparr>"
        and ev = ClickDisconnect
        and evs = "[CreditsFetched three_credits, ClickCall all_succeed, CallStart,
           MessageReceived final_turn, CallEnd]"]
      generate_never_submits [OF h, where s = init_state
        and evs = "[CreditsFetched three_credits, ClickCall all_succeed, CallStart,
           MessageReceived final_turn, CallEnd]"]
    by (simp add: handleDisconnect_def)
qed

text \<open>
  Claim C6, amended. In a session whose type is not \<open>generate\<close>, the step in which the
  status becomes \<open>FINISHED\<close> submits the transcript and then navigates to the route
  \<open>/dashboard/interview/<interview identifier>/feedback\<close>, before any answer to the
  submission is there and so whatever that answer will be. When the submission is
  answered with a failure (no success, or no feedback identifier, or an empty one), the
  controller logs \<open>Error saving feedback\<close> and navigates to \<open>/dashboard\<close>; when it is
  answered with success, the controller navigates to the feedback route of the interview
  again. When the promise of the submission is rejected, the controller does nothing more:
  it logs nothing and does not navigate. In no case is the transcript submitted again.
\<close>

theorem feedback_navigation:
  assumes "type p \<noteq> ''generate''"
  shows "(callStatus s \<noteq> FINISHED \<and> callStatus (snd (step p ev s)) = FINISHED \<longrightarrow>
            fst (step p ev s) = fst (handle p ev s) @
              [ConsoleLog ''handleGenerateFeedback'',
               CreateFeedback (interviewId p) (userId p) (messages (snd (step p ev s)))
                 (feedbackId p),
               RouterPush (''/dashboard/interview/''
                 @ (case interviewId p of None \<Rightarrow> ''undefined'' | Some i \<Rightarrow> i)
                 @ ''/feedback'')])
       \<and> (\<not> (success r \<and> cf_feedbackId r \<noteq> None \<and> cf_feedbackId r \<noteq> Some []) \<longrightarrow>
            step p (FeedbackAnswered (Resolved r)) s =
              ([ConsoleLog ''Error saving feedback'', RouterPush ''/dashboard''], s))
       \<and> (success r \<and> cf_feedbackId r \<noteq> None \<and> cf_feedbackId r \<noteq> Some [] \<longrightarrow>
            step p (FeedbackAnswered (Resolved r)) s =
              ([RouterPush (''/dashboard/interview/''
                 @ (case interviewId p of None \<Rightarrow> ''undefined'' | Some i \<Rightarrow> i)
                 @ ''/feedback'')], s))
       \<and> step p (FeedbackAnswered Rejected) s = ([], s)"
proof (intro conjI impI)
  assume "callStatus s \<noteq> FINISHED \<and> callStatus (snd (step p ev s)) = FINISHED"
  then have "fst (step p ev s) = fst (handle p ev s) @ fst (feedbackEffect p (snd (handle p ev s)))"
    and "callStatus (snd (handle p ev s)) = FINISHED"
    and "messages (snd (step p ev s)) = messages (snd (handle p ev s))"
    by (simp_all add: step_to_FINISHED)
  with assms show "fst (step p ev s) = fst (handle p ev s) @
              [ConsoleLog ''handleGenerateFeedback'',
               CreateFeedback (interviewId p) (userId p) (messages (snd (step p ev s)))
                 (feedbackId p),
               RouterPush (''/dashboard/interview/''
                 @ (case interviewId p of None \<Rightarrow> ''undefined'' | Some i \<Rightarrow> i)
                 @ ''/feedback'')]"
    by (simp add: feedbackEffect_FINISHED feedbackRoute_def interpolate_def)
next
  assume "\<not> (success r \<and> cf_feedbackId r \<noteq> None \<and> cf_feedbackId r \<noteq> Some [])"
  then have "\<not> (success r \<and> truthy (cf_feedbackId r))"
    by (auto simp: truthy_def split: option.splits)
  then show "step p (FeedbackAnswered (Resolved r)) s =
      ([ConsoleLog ''Error saving feedback'', RouterPush ''/dashboard''], s)"
    using step_unchanged [of p "FeedbackAnswered (Resolved r)" s]
    by (simp add: handleGenerateFeedback_resume_def)
next
  assume "success r \<and> cf_feedbackId r \<noteq> None \<and> cf_feedbackId r \<noteq> Some []"
  then have "success r \<and> truthy (cf_feedbackId r)"
    by (auto simp: truthy_def split: option.splits)
  then show "step p (FeedbackAnswered (Resolved r)) s =
      ([RouterPush (''/dashboard/interview/''
         @ (case interviewId p of None \<Rightarrow> ''undefined'' | Some i \<Rightarrow> i)
         @ ''/feedback'')], s)"
    using step_unchanged [of p "FeedbackAnswered (Resolved r)" s]
    by (simp add: handleGenerateFeedback_resume_def feedbackRoute_def interpolate_def)
next
  show "step p (FeedbackAnswered Rejected) s = ([], s)"
    using step_unchanged [of p "FeedbackAnswered Rejected" s]
    by (simp add: handleGenerateFeedback_resume_def)
qed

theorem feedback_navigation_witness:
  "type interview_props \<noteq> ''generate''
   \<and> callStatus (init_state\<lparr>callStatus := ACTIVE\<rparr>) \<noteq> FINISHED
   \<and> callStatus (snd (step interview_props CallEnd (init_state\<lparr>callStatus := ACTIVE\<rparr>))) = FINISHED
   \<and> fst (step interview_props CallEnd (init_state\<lparr>callStatus := ACTIVE\<rparr>)) =
       [ConsoleLog ''handleGenerateFeedback'',
        CreateFeedback (Some ''i7'') (Some ''u1'') [] None,
        RouterPush ''/dashboard/interview/i7/feedback'']
   \<and> \<not> success submission_failed
   \<and> step interview_props (FeedbackAnswered (Resolved submission_failed))
        (init_state\<lparr>callStatus := FINISHED\<rparr>) =
       ([ConsoleLog ''Error saving feedback'', RouterPush ''/dashboard''],
        init_state\<lparr>callStatus := FINISHED\<rparr>)"
proof -
  have h: "type interview_props \<noteq> ''generate''"
    by (simp add: interview_props_def)
  have k: "callStatus (init_state\<lparr>callStatus := ACTIVE\<rparr>) \<noteq> FINISHED
    \<and> callStatus (snd (step interview_props CallEnd (init_state\<lparr>callStatus := ACTIVE\<rparr>))) = FINISHED"
    by (simp add: step_callStatus onCallEnd_def)
  have m: "messages (snd (step interview_props CallEnd (init_state\<lparr>callStatus := ACTIVE\<rparr>))) = []"
    by (simp add: step_messages onCallEnd_def init_state_def)
  have f: "\<not> success submission_failed"
    by (simp add: submission_failed_def)
  show ?thesis
    using h k m f
      feedback_navigation [OF h, where s = "init_state\<lparr>callStatus := ACTIVE\<rparr>" and ev = CallEnd]
      feedback_navigation [OF h, where s = "init_state\<lparr>callStatus := FINISHED\<rparr>"
        and r = submission_failed]
    by (simp add: interview_props_def onCallEnd_def)
qed

text \<open>
  The claim as it stands, a log and a redirect at every failure of the submission, fails
  when the promise of \<open>createFeedback\<close> is rejected: nothing is logged, and no navigation
  to \<open>/dashboard\<close> follows.
\<close>

theorem feedback_navigation_counterexample:
  "type interview_props \<noteq> ''generate''
   \<and> step interview_props (FeedbackAnswered Rejected) (init_state\<lparr>callStatus := FINISHED\<rparr>) =
       ([], init_state\<lparr>callStatus := FINISHED\<rparr>)
   \<and> RouterPush ''/dashboard'' \<notin>
       set (fst (step interview_props (FeedbackAnswered Rejected)
         (init_state\<lparr>callStatus := FINISHED\<rparr>)))"
  by (simp add: step_def handleGenerateFeedback_resume_def interview_props_def)



text \<open>
  Claim C8. After any sequence of events the transcript is the transcript before it
  followed by the turns of the sequence in the order of arrival: nothing recorded is
  changed or removed, and nothing is reordered or dropped as a duplicate. For a sequence
  of messages the new turns are the final transcript messages, in their order, each one
  as often as it arrived.
\<close>

theorem transcript_in_arrival_order:
  "messages (snd (run p evs s)) = messages s @ turns evs
   \<and> turns (evs @ evs') = turns evs @ turns evs'
   \<and> messages (snd (run p (map MessageReceived ms) s)) =
       messages s @
       map (\<lambda>m. \<lparr>role = m_role m, content = m_transcript m\<rparr>)
         (filter (\<lambda>m. m_type m = ''transcript'' \<and> m_transcriptType m = ''final'') ms)"
  by (simp add: run_messages turns_append turns_messages)

theorem transcript_in_arrival_order_witness:
  "messages (snd (run interview_props
      (map MessageReceived [final_turn, partial_turn, final_turn]) init_state)) =
     [\<lparr>role = User, content = ''Hello''\<rparr>, \<lparr>role = User, content = ''Hello''\<rparr>]"
  using transcript_in_arrival_order [where p = interview_props and s = init_state
      and ms = "[final_turn, partial_turn, final_turn]"]
  by (simp add: final_turn_def partial_turn_def init_state_def)

text \<open>
  Claim C9. For an identifier under which no interview record is stored, the feedback
  page redirects to \<open>/dashboard\<close> and renders nothing. For an identifier with a stored
  record, the page renders the feedback component with the identifier and that record,
  and the component (as the spec describes it) shows the feedback stored under that
  identifier.
\<close>

theorem FeedbackPage_redirects_or_renders:
  "(getInterviewById ident = None \<longrightarrow>
      FeedbackPage getInterviewById ident = Redirect ''/dashboard''
      \<and> rendered storedFeedback (FeedbackPage getInterviewById ident) = Nothing_rendered)
   \<and> (\<forall>interview. getInterviewById ident = Some interview \<longrightarrow>
        FeedbackPage getInterviewById ident = Render_FeedbackClient ident interview
        \<and> rendered storedFeedback (FeedbackPage getInterviewById ident) =
            Feedback_shown (storedFeedback ident))"
  by (simp add: FeedbackPage_def FeedbackClient_def)

theorem FeedbackPage_redirects_or_renders_witness:
  "stored_interviews ''i9'' = None
   \<and> FeedbackPage stored_interviews ''i9'' = Redirect ''/dashboard''
   \<and> rendered stored_feedback (FeedbackPage stored_interviews ''i9'') = Nothing_rendered
   \<and> stored_interviews ''i7'' = Some ''a stored interview''
   \<and> FeedbackPage stored_interviews ''i7'' = Render_FeedbackClient ''i7'' ''a stored interview''
   \<and> rendered stored_feedback (FeedbackPage stored_interviews ''i7'') =
       Feedback_shown (Some ''feedback of i7'')"
proof -
  have h: "stored_interviews ''i9'' = None"
    "stored_interviews ''i7'' = Some ''a stored interview''"
    by (simp_all add: stored_interviews_def)
  show ?thesis
    using h
      FeedbackPage_redirects_or_renders [where getInterviewById = stored_interviews
        and ident = "''i9''" and storedFeedback = stored_feedback]
      FeedbackPage_redirects_or_renders [where getInterviewById = stored_interviews
        and ident = "''i7''" and storedFeedback = stored_feedback]
    by (simp add: stored_feedback_def FeedbackClient_def)
qed

text \<open>
  Claim C10. The message handler changes the transcript if and only if the message has
  type \<open>transcript\<close> and transcript type \<open>final\<close>; it then appends one turn with the role
  and the text of the message. For every other message, a partial transcript included, it
  issues nothing and leaves the state as it was.
\<close>

theorem onMessage_final_transcript:
  "((m_type m = ''transcript'' \<and> m_transcriptType m = ''final'') \<longleftrightarrow>
      messages (snd (onMessage m s)) \<noteq> messages s)
   \<and> (m_type m = ''transcript'' \<and> m_transcriptType m = ''final'' \<longrightarrow>
      messages (snd (onMessage m s)) =
        messages s @ [\<lparr>role = m_role m, content = m_transcript m\<rparr>])
   \<and> (\<not> (m_type m = ''transcript'' \<and> m_transcriptType m = ''final'') \<longrightarrow>
      onMessage m s = ([], s))"
  by (simp add: onMessage_def Let_def)

theorem onMessage_final_transcript_witness:
  "m_type final_turn = ''transcript'' \<and> m_transcriptType final_turn = ''final''
   \<and> messages (snd (onMessage final_turn init_state)) = [\<lparr>role = User, content = ''Hello''\<rparr>]
   \<and> \<not> (m_type partial_turn = ''transcript'' \<and> m_transcriptType partial_turn = ''final'')
   \<and> onMessage partial_turn init_state = ([], init_state)"
proof -
  have h: "m_type final_turn = ''transcript'' \<and> m_transcriptType final_turn = ''final''"
    "\<not> (m_type partial_turn = ''transcript'' \<and> m_transcriptType partial_turn = ''final'')"
    by (simp_all add: final_turn_def partial_turn_def)
  show ?thesis
    using h
      onMessage_final_transcript [where m = final_turn and s = init_state]
      onMessage_final_transcript [where m = partial_turn and s = init_state]
    by (simp add: final_turn_def init_state_def)
qed

end
